theory Spec2Isabelle
  imports Complex_Main
begin

section \<open>AI market analysis pipeline (backend/analysis.py)\<close>

text \<open>
  The script loads a table of yearly observations, fits two straight lines with
  scikit-learn, evaluates them at future years and writes a CSV and a JSON file.

  Conventions of the embedding.
  \<^item> A pandas integer column holds \<open>int\<close>; a float64 value is a \<open>real\<close>: arithmetic is
    exact, rounding of IEEE doubles is not part of the model.
  \<^item> A DataFrame read from the input file is the list of its rows; a column is the
    \<open>map\<close> of a field over the rows.
  \<^item> Calls into numpy, pandas and scikit-learn have their documented meaning:
    \<open>LinearRegression().fit\<close> is ordinary least squares with an intercept (centre the
    data, minimum-norm least-squares solution, intercept from the means) and \<open>predict\<close>
    evaluates the line.
  \<^item> \<open>r2_score\<close> is a parameter of \<open>perform_regression\<close> and \<open>main\<close>. scikit-learn
    decides its result by testing float64 sums of squares against zero, and rounding
    changes the outcome of these tests (a constant column whose float mean is inexact
    has a non-zero total sum of squares), so exact arithmetic cannot stand for it.
  \<^item> A raised exception is a value \<open>Inl e\<close>; printing appends to \<open>stdout\<close>; the three
    files the script touches are fields of the \<open>world\<close>.
\<close>

subsection \<open>Data\<close>

datatype py_error = FileNotFoundError | ValueError

record market_record =
  Year :: int
  MarketSize :: real
  AdoptionRate :: real

type_synonym dataframe = "market_record list"

text \<open>The fitted attributes \<open>coef_\<close> and \<open>intercept_\<close> of a \<open>LinearRegression\<close>.\<close>

record linear_model =
  coef :: real
  intercept :: real

text \<open>A row of \<open>predictions_df\<close>; its column \<open>Year\<close> is called \<open>PredYear\<close> here.\<close>

record prediction_record =
  PredYear :: int
  PredictedMarketSize :: real
  PredictedAdoptionRate :: real

text \<open>A Python float that may be \<open>nan\<close> (what a score may be).\<close>

datatype pyfloat = Finite real | NaN

subsection \<open>scikit-learn: fit and predict\<close>

definition mean :: "real list \<Rightarrow> real" where
  "mean xs = sum_list xs / real (length xs)"

text \<open>
  \<open>LinearRegression().fit(X, y)\<close> for a single feature. No sample, or columns of
  different lengths, raise \<open>ValueError\<close>. Otherwise the data are centred, the
  coefficient is the minimum-norm least-squares solution on the centred data (zero when
  the centred feature is all zero) and the intercept is \<open>y_offset - X_offset * coef\<close>.
\<close>

definition fit :: "real list \<Rightarrow> real list \<Rightarrow> py_error + linear_model" where
  "fit X y =
     (if X = [] \<or> length X \<noteq> length y then Inl ValueError
      else
        let X_offset = mean X;
            y_offset = mean y;
            sxx = (\<Sum>x\<leftarrow>X. (x - X_offset)\<^sup>2);
            sxy = (\<Sum>(x, v)\<leftarrow>zip X y. (x - X_offset) * (v - y_offset));
            c = (if sxx = 0 then 0 else sxy / sxx)
        in Inr \<lparr>coef = c, intercept = y_offset - X_offset * c\<rparr>)"

definition predict :: "linear_model \<Rightarrow> real list \<Rightarrow> real list" where
  "predict m X = map (\<lambda>x. x * coef m + intercept m) X"

subsection \<open>generate_future_predictions\<close>

text \<open>
  \<open>range(1, years_ahead + 1)\<close> is \<open>[1..years_ahead]\<close>. With no future year the array
  handed to \<open>predict\<close> is one-dimensional and scikit-learn raises \<open>ValueError\<close>.
\<close>

definition generate_future_predictions ::
  "linear_model \<Rightarrow> linear_model \<Rightarrow> int \<Rightarrow> int \<Rightarrow> py_error + prediction_record list" where
  "generate_future_predictions model_market model_adoption base_year years_ahead =
     (let future_years = map (\<lambda>i. base_year + i) [1..years_ahead]
      in if future_years = [] then Inl ValueError
         else
           let future_market = predict model_market (map real_of_int future_years);
               future_adoption = predict model_adoption (map real_of_int future_years)
           in Inr (map (\<lambda>(y, m, a).
                      \<lparr>PredYear = y, PredictedMarketSize = m, PredictedAdoptionRate = a\<rparr>)
                    (zip future_years (zip future_market future_adoption))))"

subsection \<open>Files and standard output\<close>

text \<open>
  A written CSV file is its header and its records, each a list of fields. pandas
  writes a missing value (\<open>None\<close>, \<open>NaN\<close>) as the empty field; the decimal text of a
  number is left to pandas, so a numeric field holds its value.
\<close>

datatype cell = IntCell int | FloatCell real | StrCell string | EmptyCell

record csv_file =
  header :: "string list"
  rows :: "cell list list"

record performance =
  market_r2_score :: pyfloat
  adoption_r2_score :: pyfloat

record historical_entry =
  hist_year :: int
  market_size :: real
  adoption_rate :: real

record prediction_entry =
  pred_year :: int
  predicted_market_size :: real
  predicted_adoption_rate :: real

text \<open>The dictionary \<open>json_data\<close>; the entries' key \<open>year\<close> is \<open>hist_year\<close> and \<open>pred_year\<close>.\<close>

record json_data =
  model_performance :: performance
  historical_data :: "historical_entry list"
  predictions :: "prediction_entry list"

text \<open>
  One \<open>print\<close> call is one line of pieces: literal text, and the values an f-string or
  a DataFrame display formats.
\<close>

datatype piece =
  PStr string
  | PInt int
  | PFloat4 pyfloat
  | PShape nat nat
  | PFrame dataframe
  | PPredictions "prediction_record list"

text \<open>
  The three files of the script and its output. \<open>input_csv\<close> is \<open>None\<close> when
  \<open>data/ai_market.csv\<close> does not exist, else the table \<open>pd.read_csv\<close> parses from it
  (header \<open>Year,MarketSize,AdoptionRate\<close>, numeric fields). \<open>results_csv\<close> and
  \<open>results_json\<close> are \<open>data/ai_analysis_results.csv\<close> and \<open>.json\<close>.
\<close>

record world =
  input_csv :: "dataframe option"
  results_csv :: "csv_file option"
  results_json :: "json_data option"
  stdout :: "piece list list"

definition print :: "piece list \<Rightarrow> world \<Rightarrow> world" where
  "print line w = w\<lparr>stdout := stdout w @ [line]\<rparr>"

definition os_path_join :: "string \<Rightarrow> string \<Rightarrow> string" where
  "os_path_join a b = a @ ''/'' @ b"

definition read_csv :: "world \<Rightarrow> py_error + dataframe" where
  "read_csv w = (case input_csv w of None \<Rightarrow> Inl FileNotFoundError | Some df \<Rightarrow> Inr df)"

subsection \<open>load_data\<close>

definition load_data :: "world \<Rightarrow> (py_error + dataframe option) \<times> world" where
  "load_data w =
     (let data_path = os_path_join ''data'' ''ai_market.csv''
      in case read_csv w of
           Inr df \<Rightarrow>
             (Inr (Some df),
              print [PStr ''Loaded '', PInt (int (length df)), PStr '' records from '',
                     PStr data_path] w)
         | Inl e \<Rightarrow>
             if e = FileNotFoundError
             then (Inr None, print [PStr ''Error: ai_market.csv not found in data/ directory''] w)
             else (Inl e, w))"

subsection \<open>perform_regression\<close>

text \<open>The superscript two of the two score lines, in UTF-8.\<close>

definition superscript_two :: string where
  "superscript_two = [CHR 0xC2, CHR 0xB2]"

text \<open>
  \<open>r2_score\<close> is scikit-learn's function of the observed and the predicted column.
\<close>

definition perform_regression ::
  "(real list \<Rightarrow> real list \<Rightarrow> pyfloat) \<Rightarrow> dataframe \<Rightarrow> world
     \<Rightarrow> (py_error + linear_model \<times> linear_model \<times> pyfloat \<times> pyfloat) \<times> world" where
  "perform_regression r2_score df w =
     (let X = map (\<lambda>r. real_of_int (Year r)) df;
          y_market = map MarketSize df;
          y_adoption = map AdoptionRate df
      in case fit X y_market of
           Inl e \<Rightarrow> (Inl e, w)
         | Inr model_market \<Rightarrow>
             (case fit X y_adoption of
                Inl e \<Rightarrow> (Inl e, w)
              | Inr model_adoption \<Rightarrow>
                  let market_predictions = predict model_market X;
                      adoption_predictions = predict model_adoption X;
                      market_r2 = r2_score y_market market_predictions;
                      adoption_r2 = r2_score y_adoption adoption_predictions;
                      w1 = print [PStr (''Market Size Model R'' @ superscript_two @ '' Score: ''),
                                  PFloat4 market_r2] w;
                      w2 = print [PStr (''Adoption Rate Model R'' @ superscript_two @ '' Score: ''),
                                  PFloat4 adoption_r2] w1
                  in (Inr (model_market, model_adoption, market_r2, adoption_r2), w2)))"

subsection \<open>save_results\<close>

text \<open>\<open>combined_df\<close>, built from six column lists of one length.\<close>

record combined_df =
  Year_col :: "int list"
  MarketSize_col :: "real option list"
  AdoptionRate_col :: "real option list"
  PredictedMarketSize_col :: "real option list"
  PredictedAdoptionRate_col :: "real option list"
  Type_col :: "string list"

definition float_cell :: "real option \<Rightarrow> cell" where
  "float_cell v = (case v of None \<Rightarrow> EmptyCell | Some x \<Rightarrow> FloatCell x)"

text \<open>\<open>to_csv(path, index=False)\<close>: the column names, then one record per row index.\<close>

definition to_csv :: "combined_df \<Rightarrow> csv_file" where
  "to_csv c =
     \<lparr>header = [''Year'', ''MarketSize'', ''AdoptionRate'', ''PredictedMarketSize'',
                ''PredictedAdoptionRate'', ''Type''],
      rows = map (\<lambda>i. [IntCell (Year_col c ! i),
                        float_cell (MarketSize_col c ! i),
                        float_cell (AdoptionRate_col c ! i),
                        float_cell (PredictedMarketSize_col c ! i),
                        float_cell (PredictedAdoptionRate_col c ! i),
                        StrCell (Type_col c ! i)])
               [0..<length (Year_col c)]\<rparr>"

text \<open>
  Python's \<open>round(x, ndigits)\<close> on exact values: to the nearest multiple of
  \<open>10 ^ -ndigits\<close>, a tie to the even one; \<open>nan\<close> stays \<open>nan\<close>.
\<close>

definition py_round :: "real \<Rightarrow> nat \<Rightarrow> real" where
  "py_round x ndigits =
     (let s = x * 10 ^ ndigits;
          f = \<lfloor>s\<rfloor>;
          d = s - of_int f
      in of_int (if d < 1 / 2 then f else if 1 / 2 < d then f + 1
                 else if even f then f else f + 1) / 10 ^ ndigits)"

definition round_pyfloat :: "pyfloat \<Rightarrow> nat \<Rightarrow> pyfloat" where
  "round_pyfloat v ndigits = (case v of NaN \<Rightarrow> NaN | Finite x \<Rightarrow> Finite (py_round x ndigits))"

definition save_results ::
  "dataframe \<Rightarrow> prediction_record list \<Rightarrow> pyfloat \<Rightarrow> pyfloat \<Rightarrow> world \<Rightarrow> json_data \<times> world" where
  "save_results df_original df_predictions market_r2 adoption_r2 w =
     (let combined =
            \<lparr>Year_col = map Year df_original @ map PredYear df_predictions,
             MarketSize_col =
               map (\<lambda>r. Some (MarketSize r)) df_original @ replicate (length df_predictions) None,
             AdoptionRate_col =
               map (\<lambda>r. Some (AdoptionRate r)) df_original @ replicate (length df_predictions) None,
             PredictedMarketSize_col =
               replicate (length df_original) None
                 @ map (\<lambda>p. Some (PredictedMarketSize p)) df_predictions,
             PredictedAdoptionRate_col =
               replicate (length df_original) None
                 @ map (\<lambda>p. Some (PredictedAdoptionRate p)) df_predictions,
             Type_col =
               replicate (length df_original) ''Historical''
                 @ replicate (length df_predictions) ''Predicted''\<rparr>;
          csv_path = os_path_join ''data'' ''ai_analysis_results.csv'';
          w1 = w\<lparr>results_csv := Some (to_csv combined)\<rparr>;
          w2 = print [PStr ''Results saved to '', PStr csv_path] w1;
          json =
            \<lparr>model_performance =
               \<lparr>market_r2_score = round_pyfloat market_r2 4,
                adoption_r2_score = round_pyfloat adoption_r2 4\<rparr>,
             historical_data =
               map (\<lambda>row. \<lparr>hist_year = Year row,
                             market_size = MarketSize row,
                             adoption_rate = AdoptionRate row\<rparr>) df_original,
             predictions =
               map (\<lambda>row. \<lparr>pred_year = PredYear row,
                             predicted_market_size = py_round (PredictedMarketSize row) 2,
                             predicted_adoption_rate = py_round (PredictedAdoptionRate row) 2\<rparr>)
                 df_predictions\<rparr>;
          json_path = os_path_join ''data'' ''ai_analysis_results.json'';
          w3 = w2\<lparr>results_json := Some json\<rparr>;
          w4 = print [PStr ''JSON results saved to '', PStr json_path] w3
      in (json, w4))"

subsection \<open>main\<close>

text \<open>
  The result is \<open>None\<close> when \<open>main\<close> returns and \<open>Some e\<close> when the exception \<open>e\<close>
  leaves it; \<open>load_data\<close> catches \<open>FileNotFoundError\<close> only and returns \<open>None\<close> for it. The forecaster is called with its defaults, base year 2024 and five years.
\<close>

definition newline :: string where
  "newline = [CHR 0x0A]"

definition main ::
  "(real list \<Rightarrow> real list \<Rightarrow> pyfloat) \<Rightarrow> world \<Rightarrow> py_error option \<times> world" where
  "main r2_score w0 =
     (let w1 = print [PStr ''=== AI Market Analysis Started ===''] w0;
          (loaded, w2) = load_data w1
      in case loaded of
           Inl e \<Rightarrow> (Some e, w2)
         | Inr None \<Rightarrow> (None, w2)
         | Inr (Some df) \<Rightarrow>
             let w3 = print [PStr (newline @ ''Dataset Overview:'')] w2;
                 w4 = print [PFrame (take 5 df)] w3;
                 w5 = print [PStr (newline @ ''Data shape: ''), PShape (length df) 3] w4;
                 w6 = print [PStr (newline @ ''=== Performing Linear Regression ==='')] w5;
                 (fitted, w7) = perform_regression r2_score df w6
             in case fitted of
                  Inl e \<Rightarrow> (Some e, w7)
                | Inr (model_market, model_adoption, market_r2, adoption_r2) \<Rightarrow>
                    let w8 = print [PStr (newline @ ''=== Generating Future Predictions ==='')] w7
                    in case generate_future_predictions model_market model_adoption 2024 5 of
                         Inl e \<Rightarrow> (Some e, w8)
                       | Inr predictions_df \<Rightarrow>
                           let w9 = print [PStr ''Future Predictions:''] w8;
                               w10 = print [PPredictions predictions_df] w9;
                               w11 = print [PStr (newline @ ''=== Saving Results ==='')] w10;
                               (json, w12) =
                                 save_results df predictions_df market_r2 adoption_r2 w11;
                               w13 = print [PStr (newline @ ''=== Analysis Complete ==='')] w12;
                               w14 = print [PStr ''Files generated:''] w13;
                               w15 = print [PStr ''- data/ai_analysis_results.csv''] w14;
                               w16 = print [PStr ''- data/ai_analysis_results.json''] w15;
                               w17 = print [PStr (newline @
                                       ''You can now open frontend/index.html to view the dashboard!'')]
                                       w16
                           in (None, w17))"

subsection \<open>Notions used in the statements\<close>

text \<open>
  The sum of squared residuals of a line over the rows of a table, for one target
  column.
\<close>

definition ss_res :: "linear_model \<Rightarrow> dataframe \<Rightarrow> (market_record \<Rightarrow> real) \<Rightarrow> real" where
  "ss_res m df target = (\<Sum>r\<leftarrow>df. (target r - (coef m * real_of_int (Year r) + intercept m))\<^sup>2)"

text \<open>
  The two shapes of a record of the written CSV file: a row of the historical table,
  with the two predicted fields empty, and a row of the forecast, with the two observed
  fields empty.
\<close>

definition historical_row :: "market_record \<Rightarrow> cell list" where
  "historical_row r =
     [IntCell (Year r), FloatCell (MarketSize r), FloatCell (AdoptionRate r),
      EmptyCell, EmptyCell, StrCell ''Historical'']"

definition predicted_row :: "prediction_record \<Rightarrow> cell list" where
  "predicted_row p =
     [IntCell (PredYear p), EmptyCell, EmptyCell,
      FloatCell (PredictedMarketSize p), FloatCell (PredictedAdoptionRate p),
      StrCell ''Predicted'']"

text \<open>The header line of a CSV file: its column names, separated by commas.\<close>

fun join_comma :: "string list \<Rightarrow> string" where
  "join_comma [] = []"
| "join_comma [s] = s"
| "join_comma (s # t # ss) = s @ '','' @ join_comma (t # ss)"

text \<open>
  Reading the written CSV file back, as the round-trip property words it: keep the
  records whose field \<open>Type\<close> is \<open>Historical\<close> and take the columns \<open>Year\<close>,
  \<open>MarketSize\<close> and \<open>AdoptionRate\<close> of each; \<open>None\<close> when a kept record has no number in
  one of them.
\<close>

fun is_historical :: "cell list \<Rightarrow> bool" where
  "is_historical [y, m, a, pm, pa, StrCell t] = (t = ''Historical'')"
| "is_historical row = False"

fun record_of_row :: "cell list \<Rightarrow> market_record option" where
  "record_of_row [IntCell y, FloatCell m, FloatCell a, pm, pa, t] =
     Some \<lparr>Year = y, MarketSize = m, AdoptionRate = a\<rparr>"
| "record_of_row row = None"

definition reload_historical :: "csv_file \<Rightarrow> dataframe option" where
  "reload_historical c = those (map record_of_row (filter is_historical (rows c)))"

text \<open>
  Concrete inputs: the three-row scenario, a table whose years reach 2025, and a
  world with no output file and nothing printed.
\<close>

definition scenario :: dataframe where
  "scenario = [\<lparr>Year = 2020, MarketSize = 100, AdoptionRate = 10\<rparr>,
               \<lparr>Year = 2021, MarketSize = 150, AdoptionRate = 15\<rparr>,
               \<lparr>Year = 2022, MarketSize = 200, AdoptionRate = 20\<rparr>]"

definition late_data :: dataframe where
  "late_data = [\<lparr>Year = 2024, MarketSize = 100, AdoptionRate = 10\<rparr>,
                \<lparr>Year = 2025, MarketSize = 150, AdoptionRate = 15\<rparr>]"

definition fresh_world :: "dataframe option \<Rightarrow> world" where
  "fresh_world f = \<lparr>input_csv = f, results_csv = None, results_json = None, stdout = []\<rparr>"

subsection \<open>The forecaster's output\<close>

lemma upto_shift: "map (\<lambda>i. a + i) [l..u] = [a + l..a + u]"
proof (induction l u rule: upto.induct)
  case (1 i j)
  show ?case
  proof (cases "i \<le> j")
    case True
    then have "[i..j] = i # [i + 1..j]" and "[a + i..a + j] = (a + i) # [a + i + 1..a + j]"
      by (simp_all add: upto_rec1)
    with 1 True show ?thesis by (simp add: add.assoc)
  next
    case False
    then show ?thesis by simp
  qed
qed

lemma zip3_map:
  "zip (map f xs) (zip (map g xs) (map h xs)) = map (\<lambda>x. (f x, g x, h x)) xs"
  by (induction xs) simp_all

lemma generate_future_predictions_eq:
  assumes "1 \<le> n"
  shows "generate_future_predictions mm ma a n =
           Inr (map (\<lambda>y. \<lparr>PredYear = y,
                           PredictedMarketSize = coef mm * real_of_int y + intercept mm,
                           PredictedAdoptionRate = coef ma * real_of_int y + intercept ma\<rparr>)
                  [a + 1..a + n])"
proof -
  have ne: "[a + 1..a + n] \<noteq> []"
    using assms by (simp add: upto_rec1)
  have "zip [a + 1..a + n]
          (zip (predict mm (map real_of_int [a + 1..a + n]))
               (predict ma (map real_of_int [a + 1..a + n])))
        = map (\<lambda>y. (y, real_of_int y * coef mm + intercept mm,
                        real_of_int y * coef ma + intercept ma)) [a + 1..a + n]"
    using zip3_map [of "\<lambda>y. y" "[a + 1..a + n]"
        "\<lambda>y. real_of_int y * coef mm + intercept mm"
        "\<lambda>y. real_of_int y * coef ma + intercept ma"]
    by (simp add: predict_def o_def)
  then show ?thesis
    using ne by (simp add: generate_future_predictions_def upto_shift Let_def o_def mult.commute)
qed

text \<open>
  C2. For every pair of fitted models, anchor year \<open>a\<close> and horizon \<open>n \<ge> 1\<close>, the
  forecaster returns (it does not raise) exactly \<open>n\<close> records; their years are
  \<open>a + 1, \<dots>, a + n\<close> in that order, hence strictly increasing and contiguous, and the two
  predicted values of each record are \<open>slope * year + intercept\<close> of the corresponding
  model at the record's year.
\<close>

theorem C2_forecast_years_and_values:
  assumes "1 \<le> n"
  shows "\<exists>ps. generate_future_predictions mm ma a n = Inr ps
           \<and> length ps = nat n
           \<and> map PredYear ps = [a + 1..a + n]
           \<and> (\<forall>i. i < nat n \<longrightarrow> PredYear (ps ! i) = a + 1 + int i)
           \<and> sorted_wrt (<) (map PredYear ps)
           \<and> (\<forall>p. p \<in> set ps \<longrightarrow>
                 PredictedMarketSize p = coef mm * real_of_int (PredYear p) + intercept mm
               \<and> PredictedAdoptionRate p = coef ma * real_of_int (PredYear p) + intercept ma)"
proof -
  let ?ps = "map (\<lambda>y. \<lparr>PredYear = y,
                         PredictedMarketSize = coef mm * real_of_int y + intercept mm,
                         PredictedAdoptionRate = coef ma * real_of_int y + intercept ma\<rparr>)
               [a + 1..a + n]"
  have eq: "generate_future_predictions mm ma a n = Inr ?ps"
    using assms by (rule generate_future_predictions_eq)
  have len: "length ?ps = nat n"
    by simp
  have years: "map PredYear ?ps = [a + 1..a + n]"
    by (simp add: o_def)
  have nth: "\<forall>i. i < nat n \<longrightarrow> PredYear (?ps ! i) = a + 1 + int i"
    by simp
  have incr: "sorted_wrt (<) (map PredYear ?ps)"
    unfolding years by (rule sorted_wrt_upto)
  have vals: "\<forall>p. p \<in> set ?ps \<longrightarrow>
                 PredictedMarketSize p = coef mm * real_of_int (PredYear p) + intercept mm
               \<and> PredictedAdoptionRate p = coef ma * real_of_int (PredYear p) + intercept ma"
    by auto
  from eq len years nth incr vals show ?thesis
    by blast
qed

theorem C2_forecast_witness:
  "(1::int) \<le> 5
   \<and> (\<exists>ps. generate_future_predictions \<lparr>coef = 50, intercept = - 100900\<rparr>
             \<lparr>coef = 5, intercept = - 10090\<rparr> 2024 5 = Inr ps
        \<and> length ps = 5
        \<and> map PredYear ps = [2025, 2026, 2027, 2028, 2029])"
proof -
  have h: "(1::int) \<le> 5" by simp
  have u: "[2024 + 1..2024 + 5] = [2025, 2026, 2027, 2028, 2029::int]"
    by (simp add: upto_rec1)
  from C2_forecast_years_and_values [OF h, of "\<lparr>coef = 50, intercept = - 100900\<rparr>"
      "\<lparr>coef = 5, intercept = - 10090\<rparr>" 2024]
  show ?thesis unfolding u by auto
qed

subsection \<open>Least squares\<close>

text \<open>
  Sums over the rows of a table; \<open>fx\<close> reads the feature of a row and \<open>fy\<close> its target.
\<close>

lemma sum_list_centred:
  fixes f :: "'a \<Rightarrow> real"
  assumes "xs \<noteq> []"
  shows "(\<Sum>r\<leftarrow>xs. f r - mean (map f xs)) = 0"
  using assms by (simp add: sum_list_subtractf sum_list_triv mean_def)

lemma fit_rows:
  assumes "df \<noteq> []"
  shows "fit (map fx df) (map fy df) =
    Inr \<lparr>coef = (if (\<Sum>r\<leftarrow>df. (fx r - mean (map fx df))\<^sup>2) = 0 then 0
                 else (\<Sum>r\<leftarrow>df. (fx r - mean (map fx df)) * (fy r - mean (map fy df)))
                      / (\<Sum>r\<leftarrow>df. (fx r - mean (map fx df))\<^sup>2)),
         intercept = mean (map fy df) - mean (map fx df) *
               (if (\<Sum>r\<leftarrow>df. (fx r - mean (map fx df))\<^sup>2) = 0 then 0
                 else (\<Sum>r\<leftarrow>df. (fx r - mean (map fx df)) * (fy r - mean (map fy df)))
                      / (\<Sum>r\<leftarrow>df. (fx r - mean (map fx df))\<^sup>2))\<rparr>"
  using assms by (simp add: fit_def Let_def zip_map_map o_def zip_same_conv_map)

lemma residual_sum_zero:
  fixes fx fy :: "'a \<Rightarrow> real"
  assumes "df \<noteq> []"
  shows "(\<Sum>r\<leftarrow>df. fy r - (c * fx r + (mean (map fy df) - mean (map fx df) * c))) = 0"
proof -
  have "(\<Sum>r\<leftarrow>df. fy r - (c * fx r + (mean (map fy df) - mean (map fx df) * c)))
      = (\<Sum>r\<leftarrow>df. (fy r - mean (map fy df)) - c * (fx r - mean (map fx df)))"
    by (simp add: algebra_simps)
  also have "\<dots> = (\<Sum>r\<leftarrow>df. fy r - mean (map fy df)) - c * (\<Sum>r\<leftarrow>df. fx r - mean (map fx df))"
    by (simp add: sum_list_subtractf sum_list_const_mult)
  also have "\<dots> = 0"
    using assms by (simp add: sum_list_centred)
  finally show ?thesis .
qed

lemma weighted_residual_sum:
  fixes fx fy :: "'a \<Rightarrow> real"
  assumes "df \<noteq> []"
  shows "(\<Sum>r\<leftarrow>df. fx r * (fy r - (c * fx r + (mean (map fy df) - mean (map fx df) * c))))
       = (\<Sum>r\<leftarrow>df. (fx r - mean (map fx df)) * (fy r - mean (map fy df)))
         - c * (\<Sum>r\<leftarrow>df. (fx r - mean (map fx df))\<^sup>2)"
proof -
  let ?mx = "mean (map fx df)" and ?my = "mean (map fy df)"
  let ?res = "\<lambda>r. fy r - (c * fx r + (?my - ?mx * c))"
  have pt: "\<And>r. fx r * ?res r
      = ((fx r - ?mx) * (fy r - ?my) - c * (fx r - ?mx)\<^sup>2) + ?mx * ?res r"
    by (simp add: algebra_simps power2_eq_square)
  have "(\<Sum>r\<leftarrow>df. fx r * ?res r)
      = (\<Sum>r\<leftarrow>df. ((fx r - ?mx) * (fy r - ?my) - c * (fx r - ?mx)\<^sup>2) + ?mx * ?res r)"
    by (simp only: pt)
  also have "\<dots> = (\<Sum>r\<leftarrow>df. (fx r - ?mx) * (fy r - ?my)) - c * (\<Sum>r\<leftarrow>df. (fx r - ?mx)\<^sup>2)
                  + ?mx * (\<Sum>r\<leftarrow>df. ?res r)"
    by (simp only: sum_list_addf sum_list_subtractf sum_list_const_mult)
  also have "\<dots> = (\<Sum>r\<leftarrow>df. (fx r - ?mx) * (fy r - ?my)) - c * (\<Sum>r\<leftarrow>df. (fx r - ?mx)\<^sup>2)"
    using residual_sum_zero [OF assms, of fy c fx] by simp
  finally show ?thesis .
qed

lemma sxx_pos:
  fixes fx :: "'a \<Rightarrow> real"
  assumes "2 \<le> card (fx ` set df)"
  shows "(\<Sum>r\<leftarrow>df. (fx r - m)\<^sup>2) \<noteq> 0"
proof
  assume z: "(\<Sum>r\<leftarrow>df. (fx r - m)\<^sup>2) = 0"
  have "\<forall>v \<in> set (map (\<lambda>r. (fx r - m)\<^sup>2) df). v = 0"
    using z by (subst (asm) sum_list_nonneg_eq_0_iff) auto
  then have "\<forall>r \<in> set df. fx r = m" by auto
  then have "fx ` set df \<subseteq> {m}" by auto
  then have "card (fx ` set df) \<le> card {m}" by (intro card_mono) auto
  with assms show False by simp
qed

lemma sq_error_split:
  fixes fx fy :: "'a \<Rightarrow> real"
  shows "(\<Sum>r\<leftarrow>df. (fy r - (a * fx r + b))\<^sup>2)
       = (\<Sum>r\<leftarrow>df. (fy r - (c * fx r + d))\<^sup>2)
         + 2 * (c - a) * (\<Sum>r\<leftarrow>df. fx r * (fy r - (c * fx r + d)))
         + 2 * (d - b) * (\<Sum>r\<leftarrow>df. fy r - (c * fx r + d))
         + (\<Sum>r\<leftarrow>df. ((c - a) * fx r + (d - b))\<^sup>2)"
proof -
  have pt: "\<And>r. (fy r - (a * fx r + b))\<^sup>2
      = (fy r - (c * fx r + d))\<^sup>2
         + 2 * (c - a) * (fx r * (fy r - (c * fx r + d)))
         + 2 * (d - b) * (fy r - (c * fx r + d))
         + ((c - a) * fx r + (d - b))\<^sup>2"
    by (simp add: power2_eq_square algebra_simps)
  show ?thesis
    by (subst pt) (simp only: sum_list_addf sum_list_const_mult)
qed

lemma fit_normal_equations:
  fixes fx fy :: "'a \<Rightarrow> real"
  assumes two: "2 \<le> card (fx ` set df)" and fitted: "fit (map fx df) (map fy df) = Inr m"
  shows "(\<Sum>r\<leftarrow>df. fy r - (coef m * fx r + intercept m)) = 0"
    and "(\<Sum>r\<leftarrow>df. fx r * (fy r - (coef m * fx r + intercept m))) = 0"
proof -
  from two have ne: "df \<noteq> []" by auto
  let ?mx = "mean (map fx df)" and ?my = "mean (map fy df)"
  let ?sxx = "\<Sum>r\<leftarrow>df. (fx r - ?mx)\<^sup>2"
  let ?sxy = "\<Sum>r\<leftarrow>df. (fx r - ?mx) * (fy r - ?my)"
  have sxx: "?sxx \<noteq> 0" using two by (rule sxx_pos)
  from fitted fit_rows [OF ne, of fx fy] sxx
  have m: "m = \<lparr>coef = ?sxy / ?sxx, intercept = ?my - ?mx * (?sxy / ?sxx)\<rparr>"
    by simp
  have c: "coef m = ?sxy / ?sxx" and i: "intercept m = ?my - ?mx * coef m"
    by (simp_all add: m)
  show "(\<Sum>r\<leftarrow>df. fy r - (coef m * fx r + intercept m)) = 0"
    unfolding i by (rule residual_sum_zero [OF ne])
  have "(\<Sum>r\<leftarrow>df. fx r * (fy r - (coef m * fx r + intercept m))) = ?sxy - coef m * ?sxx"
    unfolding i by (rule weighted_residual_sum [OF ne])
  also have "\<dots> = 0" using sxx by (simp add: c)
  finally show "(\<Sum>r\<leftarrow>df. fx r * (fy r - (coef m * fx r + intercept m))) = 0" .
qed

lemma fit_least_squares:
  fixes fx fy :: "'a \<Rightarrow> real"
  assumes two: "2 \<le> card (fx ` set df)" and fitted: "fit (map fx df) (map fy df) = Inr m"
  shows "(\<Sum>r\<leftarrow>df. (fy r - (coef m * fx r + intercept m))\<^sup>2)
       \<le> (\<Sum>r\<leftarrow>df. (fy r - (a * fx r + b))\<^sup>2)"
proof -
  have "0 \<le> (\<Sum>r\<leftarrow>df. ((coef m - a) * fx r + (intercept m - b))\<^sup>2)"
    by (rule sum_list_nonneg) auto
  then show ?thesis
    using sq_error_split [of fy a fx b df "coef m" "intercept m"]
      fit_normal_equations [OF two fitted]
    by simp
qed

lemma card_years:
  "card ((\<lambda>r. real_of_int (Year r)) ` set df) = card (Year ` set df)"
proof -
  have "(\<lambda>r. real_of_int (Year r)) ` set df = real_of_int ` (Year ` set df)"
    by (simp add: image_image)
  moreover have "card (real_of_int ` (Year ` set df)) = card (Year ` set df)"
    by (rule card_image) (simp add: inj_on_def)
  ultimately show ?thesis by simp
qed

lemma perform_regression_fst:
  assumes "df \<noteq> []"
  shows "\<exists>mm ma.
           fit (map (\<lambda>r. real_of_int (Year r)) df) (map MarketSize df) = Inr mm
         \<and> fit (map (\<lambda>r. real_of_int (Year r)) df) (map AdoptionRate df) = Inr ma
         \<and> fst (perform_regression r2_score df w) =
             Inr (mm, ma,
                  r2_score (map MarketSize df) (predict mm (map (\<lambda>r. real_of_int (Year r)) df)),
                  r2_score (map AdoptionRate df) (predict ma (map (\<lambda>r. real_of_int (Year r)) df)))"
proof -
  obtain mm where mm: "fit (map (\<lambda>r. real_of_int (Year r)) df) (map MarketSize df) = Inr mm"
    using fit_rows [OF assms] by blast
  obtain ma where ma: "fit (map (\<lambda>r. real_of_int (Year r)) df) (map AdoptionRate df) = Inr ma"
    using fit_rows [OF assms] by blast
  show ?thesis
    by (simp add: perform_regression_def Let_def mm ma)
qed

lemma ss_res_fit_minimal:
  assumes two: "2 \<le> card (Year ` set df)"
    and fitted: "fit (map (\<lambda>r. real_of_int (Year r)) df) (map target df) = Inr m"
  shows "ss_res m df target \<le> ss_res m' df target"
  unfolding ss_res_def
  using fit_least_squares [of "\<lambda>r. real_of_int (Year r)" df target m "coef m'" "intercept m'"]
    two fitted by (simp add: card_years)

text \<open>
  C3. For every table with at least two distinct years, the regression step returns two
  models, and each satisfies the normal equations of ordinary least squares against the
  single feature year: the residuals sum to zero and the year-weighted residuals sum to
  zero. Hence no line has a smaller sum of squared residuals. This holds for the market
  size and for the adoption rate.
\<close>

theorem C3_normal_equations:
  assumes "2 \<le> card (Year ` set df)"
  shows "\<exists>mm ma r2m r2a.
           fst (perform_regression r2_score df w) = Inr (mm, ma, r2m, r2a)
         \<and> (\<Sum>r\<leftarrow>df. MarketSize r - (coef mm * real_of_int (Year r) + intercept mm)) = 0
         \<and> (\<Sum>r\<leftarrow>df. real_of_int (Year r)
                      * (MarketSize r - (coef mm * real_of_int (Year r) + intercept mm))) = 0
         \<and> (\<forall>m. ss_res mm df MarketSize \<le> ss_res m df MarketSize)
         \<and> (\<Sum>r\<leftarrow>df. AdoptionRate r - (coef ma * real_of_int (Year r) + intercept ma)) = 0
         \<and> (\<Sum>r\<leftarrow>df. real_of_int (Year r)
                      * (AdoptionRate r - (coef ma * real_of_int (Year r) + intercept ma))) = 0
         \<and> (\<forall>m. ss_res ma df AdoptionRate \<le> ss_res m df AdoptionRate)"
proof -
  from assms have ne: "df \<noteq> []" by auto
  let ?X = "\<lambda>r. real_of_int (Year r)"
  from perform_regression_fst [OF ne, of r2_score w] obtain mm ma where
    mm: "fit (map ?X df) (map MarketSize df) = Inr mm" and
    ma: "fit (map ?X df) (map AdoptionRate df) = Inr ma" and
    res: "fst (perform_regression r2_score df w) =
            Inr (mm, ma, r2_score (map MarketSize df) (predict mm (map ?X df)),
                 r2_score (map AdoptionRate df) (predict ma (map ?X df)))"
    by blast
  have two: "2 \<le> card (?X ` set df)"
    using assms by (simp add: card_years)
  note nm = fit_normal_equations [OF two mm] and na = fit_normal_equations [OF two ma]
  have lm: "\<forall>m. ss_res mm df MarketSize \<le> ss_res m df MarketSize"
    using ss_res_fit_minimal [OF assms mm] by blast
  have la: "\<forall>m. ss_res ma df AdoptionRate \<le> ss_res m df AdoptionRate"
    using ss_res_fit_minimal [OF assms ma] by blast
  from res nm na lm la show ?thesis by blast
qed

theorem C3_normal_equations_witness:
  "2 \<le> card (Year ` set scenario)
   \<and> (\<exists>mm ma r2m r2a.
           fst (perform_regression (\<lambda>y_true y_pred. Finite 1) scenario (fresh_world (Some scenario))) = Inr (mm, ma, r2m, r2a)
         \<and> (\<Sum>r\<leftarrow>scenario. MarketSize r - (coef mm * real_of_int (Year r) + intercept mm)) = 0
         \<and> (\<Sum>r\<leftarrow>scenario. real_of_int (Year r)
                      * (MarketSize r - (coef mm * real_of_int (Year r) + intercept mm))) = 0
         \<and> (\<Sum>r\<leftarrow>scenario. AdoptionRate r - (coef ma * real_of_int (Year r) + intercept ma)) = 0
         \<and> (\<Sum>r\<leftarrow>scenario. real_of_int (Year r)
                      * (AdoptionRate r - (coef ma * real_of_int (Year r) + intercept ma))) = 0)"
proof -
  have h: "2 \<le> card (Year ` set scenario)" by (simp add: scenario_def)
  from C3_normal_equations [OF h, of "\<lambda>y_true y_pred. Finite 1" "fresh_world (Some scenario)"] h
  show ?thesis by blast
qed

subsection \<open>The three-row scenario\<close>

text \<open>
  C8. On the table \<open>(2020, 100, 10), (2021, 150, 15), (2022, 200, 20)\<close> the fitted
  market-size model has slope 50 and intercept -100900, and the fitted line at 2023 gives
  the market size 250. (The adoption model has slope 5 and intercept -10090; both models
  reproduce the observed values, on which the scores are taken.)
\<close>

theorem C8_scenario_fit:
  "fst (perform_regression r2_score scenario w) =
     Inr (\<lparr>coef = 50, intercept = - 100900\<rparr>, \<lparr>coef = 5, intercept = - 10090\<rparr>,
          r2_score [100, 150, 200] [100, 150, 200], r2_score [10, 15, 20] [10, 15, 20])
   \<and> predict \<lparr>coef = 50, intercept = - 100900\<rparr> [2023] = [250]"
  by (simp add: perform_regression_def fit_def mean_def predict_def scenario_def Let_def)

text \<open>
  The intercept is not near -100850: it is 50 away, one whole year of slope, and the
  line with slope 50 and intercept -100850 gives 300 at 2023, not 250.
\<close>

theorem C8_intercept_counterexample:
  "\<bar>intercept (fst (projr (fst (perform_regression (\<lambda>y_true y_pred. Finite 1) scenario
                                    (fresh_world (Some scenario))))))
      - (- 100850)\<bar> = 50
   \<and> predict \<lparr>coef = 50, intercept = - 100850\<rparr> [2023] = [300]"
  by (simp add: perform_regression_def fit_def mean_def predict_def scenario_def Let_def)

subsection \<open>The written files\<close>

lemma combined_rows:
  "map (\<lambda>i. [IntCell ((map Year df @ map PredYear ps) ! i),
              float_cell ((map (\<lambda>r. Some (MarketSize r)) df @ replicate (length ps) None) ! i),
              float_cell ((map (\<lambda>r. Some (AdoptionRate r)) df @ replicate (length ps) None) ! i),
              float_cell ((replicate (length df) None
                            @ map (\<lambda>p. Some (PredictedMarketSize p)) ps) ! i),
              float_cell ((replicate (length df) None
                            @ map (\<lambda>p. Some (PredictedAdoptionRate p)) ps) ! i),
              StrCell ((replicate (length df) ''Historical''
                         @ replicate (length ps) ''Predicted'') ! i)])
     [0..<length df + length ps]
   = map historical_row df @ map predicted_row ps"
  by (rule nth_equalityI)
    (auto simp: nth_append float_cell_def historical_row_def predicted_row_def)

lemma save_results_csv:
  "results_csv (snd (save_results df ps r1 r2 w)) =
     Some \<lparr>header = [''Year'', ''MarketSize'', ''AdoptionRate'', ''PredictedMarketSize'',
                      ''PredictedAdoptionRate'', ''Type''],
           rows = map historical_row df @ map predicted_row ps\<rparr>"
  by (simp add: save_results_def Let_def print_def to_csv_def combined_rows)

lemma save_results_json:
  "fst (save_results df ps r1 r2 w) =
     \<lparr>model_performance =
        \<lparr>market_r2_score = round_pyfloat r1 4, adoption_r2_score = round_pyfloat r2 4\<rparr>,
      historical_data =
        map (\<lambda>row. \<lparr>hist_year = Year row, market_size = MarketSize row,
                      adoption_rate = AdoptionRate row\<rparr>) df,
      predictions =
        map (\<lambda>row. \<lparr>pred_year = PredYear row,
                      predicted_market_size = py_round (PredictedMarketSize row) 2,
                      predicted_adoption_rate = py_round (PredictedAdoptionRate row) 2\<rparr>) ps\<rparr>"
  by (simp add: save_results_def Let_def print_def)

lemma save_results_json_file:
  "results_json (snd (save_results df ps r1 r2 w)) = Some (fst (save_results df ps r1 r2 w))"
  by (simp add: save_results_def Let_def print_def)

lemma filter_historical:
  "filter is_historical (map historical_row df @ map predicted_row ps) = map historical_row df"
proof -
  have "filter is_historical (map historical_row df) = map historical_row df"
    by (induction df) (simp_all add: historical_row_def)
  moreover have "filter is_historical (map predicted_row ps) = []"
    by (induction ps) (simp_all add: predicted_row_def)
  ultimately show ?thesis by simp
qed

lemma those_record_of_row: "those (map record_of_row (map historical_row df)) = Some df"
  by (induction df) (simp_all add: historical_row_def)

text \<open>
  C6. The CSV file written by \<open>save_results\<close> has the header
  \<open>Year,MarketSize,AdoptionRate,PredictedMarketSize,PredictedAdoptionRate,Type\<close>. Its
  records are one per historical row, with the fields \<open>PredictedMarketSize\<close> and
  \<open>PredictedAdoptionRate\<close> empty and \<open>Type\<close> equal to \<open>Historical\<close>, then one per
  forecast row, with the fields \<open>MarketSize\<close> and \<open>AdoptionRate\<close> empty and \<open>Type\<close>
  equal to \<open>Predicted\<close>.
\<close>

theorem C6_csv_layout:
  "\<exists>c. results_csv (snd (save_results df ps r1 r2 w)) = Some c
      \<and> join_comma (header c) =
          ''Year,MarketSize,AdoptionRate,PredictedMarketSize,PredictedAdoptionRate,Type''
      \<and> rows c =
          map (\<lambda>r. [IntCell (Year r), FloatCell (MarketSize r), FloatCell (AdoptionRate r),
                     EmptyCell, EmptyCell, StrCell ''Historical'']) df
          @ map (\<lambda>p. [IntCell (PredYear p), EmptyCell, EmptyCell,
                       FloatCell (PredictedMarketSize p), FloatCell (PredictedAdoptionRate p),
                       StrCell ''Predicted'']) ps"
  by (simp add: save_results_csv historical_row_def predicted_row_def)

text \<open>
  C7. Round trip: reading the written CSV file back and keeping the records of type
  \<open>Historical\<close> gives the original table, the same years and the same market sizes and
  adoption rates in the same order, for every table and every forecast.
\<close>

theorem C7_round_trip:
  "\<exists>c. results_csv (snd (save_results df ps r1 r2 w)) = Some c \<and> reload_historical c = Some df"
proof -
  let ?c = "\<lparr>header = [''Year'', ''MarketSize'', ''AdoptionRate'', ''PredictedMarketSize'',
                       ''PredictedAdoptionRate'', ''Type''],
            rows = map historical_row df @ map predicted_row ps\<rparr>"
  have "reload_historical ?c = those (map record_of_row (map historical_row df))"
    unfolding reload_historical_def by (simp only: csv_file.simps filter_historical)
  then have "reload_historical ?c = Some df"
    by (simp only: those_record_of_row)
  then show ?thesis
    using save_results_csv [of df ps r1 r2 w] by blast
qed

lemma forecast_sorted:
  assumes "generate_future_predictions mm ma a n = Inr ps"
  shows "sorted_wrt (<) (map PredYear ps)"
proof (cases "1 \<le> n")
  case True
  with assms generate_future_predictions_eq [OF True, of mm ma a]
  have "map PredYear ps = [a + 1..a + n]" by (auto simp: o_def)
  then show ?thesis by (simp add: sorted_wrt_upto)
next
  case False
  then have "[1..n] = []" by simp
  with assms show ?thesis by (simp add: generate_future_predictions_def)
qed

text \<open>
  C10. For a table of \<open>n\<close> rows and a forecast of \<open>N\<close> rows returned by the
  forecaster, the written CSV file has exactly \<open>n + N\<close> records: first the \<open>n\<close>
  historical rows in their load order, then the \<open>N\<close> predicted rows in the forecast's
  order, which is increasing in the year. The arrays \<open>historical_data\<close> and
  \<open>predictions\<close> of the JSON report hold one entry per row in these same orders.
\<close>

theorem C10_order_and_lengths:
  assumes "generate_future_predictions mm ma a n = Inr ps"
  shows "\<exists>c j. results_csv (snd (save_results df ps r1 r2 w)) = Some c
       \<and> length (rows c) = length df + length ps
       \<and> take (length df) (rows c) = map historical_row df
       \<and> drop (length df) (rows c) = map predicted_row ps
       \<and> sorted_wrt (<) (map PredYear ps)
       \<and> results_json (snd (save_results df ps r1 r2 w)) = Some j
       \<and> j = fst (save_results df ps r1 r2 w)
       \<and> historical_data j =
           map (\<lambda>row. \<lparr>hist_year = Year row, market_size = MarketSize row,
                         adoption_rate = AdoptionRate row\<rparr>) df
       \<and> predictions j =
           map (\<lambda>row. \<lparr>pred_year = PredYear row,
                         predicted_market_size = py_round (PredictedMarketSize row) 2,
                         predicted_adoption_rate = py_round (PredictedAdoptionRate row) 2\<rparr>) ps"
proof -
  let ?c = "\<lparr>header = [''Year'', ''MarketSize'', ''AdoptionRate'', ''PredictedMarketSize'',
                       ''PredictedAdoptionRate'', ''Type''],
            rows = map historical_row df @ map predicted_row ps\<rparr>"
  let ?j = "fst (save_results df ps r1 r2 w)"
  have c: "results_csv (snd (save_results df ps r1 r2 w)) = Some ?c"
    by (rule save_results_csv)
  have len: "length (rows ?c) = length df + length ps"
    and hist: "take (length df) (rows ?c) = map historical_row df"
    and pred: "drop (length df) (rows ?c) = map predicted_row ps"
    by simp_all
  have incr: "sorted_wrt (<) (map PredYear ps)"
    using assms by (rule forecast_sorted)
  have j: "results_json (snd (save_results df ps r1 r2 w)) = Some ?j"
    by (rule save_results_json_file)
  have hd: "historical_data ?j =
           map (\<lambda>row. \<lparr>hist_year = Year row, market_size = MarketSize row,
                         adoption_rate = AdoptionRate row\<rparr>) df"
    and pd: "predictions ?j =
           map (\<lambda>row. \<lparr>pred_year = PredYear row,
                         predicted_market_size = py_round (PredictedMarketSize row) 2,
                         predicted_adoption_rate = py_round (PredictedAdoptionRate row) 2\<rparr>) ps"
    by (simp_all add: save_results_json)
  show ?thesis
    by (intro exI [of _ ?c] exI [of _ ?j] conjI c len hist pred incr j refl hd pd)
qed

theorem C10_order_and_lengths_witness:
  "generate_future_predictions \<lparr>coef = 50, intercept = - 100900\<rparr>
       \<lparr>coef = 5, intercept = - 10090\<rparr> 2024 2
     = Inr [\<lparr>PredYear = 2025, PredictedMarketSize = 350, PredictedAdoptionRate = 35\<rparr>,
            \<lparr>PredYear = 2026, PredictedMarketSize = 400, PredictedAdoptionRate = 40\<rparr>]
   \<and> (\<exists>c j. results_csv (snd (save_results scenario
                   [\<lparr>PredYear = 2025, PredictedMarketSize = 350, PredictedAdoptionRate = 35\<rparr>,
                    \<lparr>PredYear = 2026, PredictedMarketSize = 400, PredictedAdoptionRate = 40\<rparr>]
                   (Finite 1) (Finite 1) (fresh_world (Some scenario)))) = Some c
          \<and> length (rows c) = 5
          \<and> take 3 (rows c) = map historical_row scenario
          \<and> results_json (snd (save_results scenario
                   [\<lparr>PredYear = 2025, PredictedMarketSize = 350, PredictedAdoptionRate = 35\<rparr>,
                    \<lparr>PredYear = 2026, PredictedMarketSize = 400, PredictedAdoptionRate = 40\<rparr>]
                   (Finite 1) (Finite 1) (fresh_world (Some scenario)))) = Some j
          \<and> length (historical_data j) = 3
          \<and> length (predictions j) = 2)"
proof -
  let ?ps = "[\<lparr>PredYear = 2025, PredictedMarketSize = 350, PredictedAdoptionRate = 35\<rparr>,
              \<lparr>PredYear = 2026, PredictedMarketSize = 400, PredictedAdoptionRate = 40\<rparr>]"
  have g: "generate_future_predictions \<lparr>coef = 50, intercept = - 100900\<rparr>
             \<lparr>coef = 5, intercept = - 10090\<rparr> 2024 2 = Inr ?ps"
    by (simp add: generate_future_predictions_def predict_def upto_rec1)
  have n: "length scenario = 3"
    by (simp add: scenario_def)
  from C10_order_and_lengths [OF g, of scenario "Finite 1" "Finite 1" "fresh_world (Some scenario)"]
  obtain c j where
    "results_csv (snd (save_results scenario ?ps (Finite 1) (Finite 1)
        (fresh_world (Some scenario)))) = Some c"
    "length (rows c) = length scenario + length ?ps"
    "take (length scenario) (rows c) = map historical_row scenario"
    "results_json (snd (save_results scenario ?ps (Finite 1) (Finite 1)
        (fresh_world (Some scenario)))) = Some j"
    "historical_data j =
       map (\<lambda>row. \<lparr>hist_year = Year row, market_size = MarketSize row,
                     adoption_rate = AdoptionRate row\<rparr>) scenario"
    "predictions j =
       map (\<lambda>row. \<lparr>pred_year = PredYear row,
                     predicted_market_size = py_round (PredictedMarketSize row) 2,
                     predicted_adoption_rate = py_round (PredictedAdoptionRate row) 2\<rparr>) ?ps"
    by blast
  then have "results_csv (snd (save_results scenario ?ps (Finite 1) (Finite 1)
                 (fresh_world (Some scenario)))) = Some c
          \<and> length (rows c) = 5
          \<and> take 3 (rows c) = map historical_row scenario
          \<and> results_json (snd (save_results scenario ?ps (Finite 1) (Finite 1)
                 (fresh_world (Some scenario)))) = Some j
          \<and> length (historical_data j) = 3
          \<and> length (predictions j) = 2"
    by (simp add: n)
  with g show ?thesis by blast
qed

subsection \<open>The pipeline\<close>

lemma main_absent:
  assumes "input_csv w = None"
  shows "main r2_score w = (None, w\<lparr>stdout := stdout w @
            [[PStr ''=== AI Market Analysis Started ===''],
             [PStr ''Error: ai_market.csv not found in data/ directory'']]\<rparr>)"
  using assms by (simp add: main_def load_data_def read_csv_def print_def Let_def)

text \<open>
  C5. When the input file does not exist, reading it raises \<open>FileNotFoundError\<close>,
  \<open>load_data\<close> returns \<open>None\<close>, and \<open>main\<close> returns after printing its banner and the
  line \<open>Error: ai_market.csv not found in data/ directory\<close>; the output CSV file and the
  output JSON file are as they were, so nothing is written.
\<close>

theorem C5_missing_input:
  assumes "input_csv w = None"
  shows "read_csv w = Inl FileNotFoundError
       \<and> fst (load_data w) = Inr None
       \<and> fst (main r2_score w) = None
       \<and> stdout (snd (main r2_score w)) = stdout w @
           [[PStr ''=== AI Market Analysis Started ===''],
            [PStr ''Error: ai_market.csv not found in data/ directory'']]
       \<and> results_csv (snd (main r2_score w)) = results_csv w
       \<and> results_json (snd (main r2_score w)) = results_json w
       \<and> input_csv (snd (main r2_score w)) = input_csv w"
  using assms main_absent [OF assms] by (simp add: read_csv_def load_data_def)

theorem C5_missing_input_witness:
  "input_csv (fresh_world None) = None
   \<and> fst (main (\<lambda>y_true y_pred. Finite 1) (fresh_world None)) = None
   \<and> stdout (snd (main (\<lambda>y_true y_pred. Finite 1) (fresh_world None))) =
           [[PStr ''=== AI Market Analysis Started ===''],
            [PStr ''Error: ai_market.csv not found in data/ directory'']]
   \<and> results_csv (snd (main (\<lambda>y_true y_pred. Finite 1) (fresh_world None))) = None
   \<and> results_json (snd (main (\<lambda>y_true y_pred. Finite 1) (fresh_world None))) = None"
proof -
  have a: "input_csv (fresh_world None) = None" by (simp add: fresh_world_def)
  from C5_missing_input [OF a, of "\<lambda>y_true y_pred. Finite 1"] a show ?thesis
    by (simp add: fresh_world_def)
qed

lemma perform_regression_of_fit:
  assumes "fit (map (\<lambda>r. real_of_int (Year r)) df) (map MarketSize df) = Inr mm"
    and "fit (map (\<lambda>r. real_of_int (Year r)) df) (map AdoptionRate df) = Inr ma"
  shows "perform_regression r2_score df w =
    (Inr (mm, ma,
          r2_score (map MarketSize df) (predict mm (map (\<lambda>r. real_of_int (Year r)) df)),
          r2_score (map AdoptionRate df) (predict ma (map (\<lambda>r. real_of_int (Year r)) df))),
     print [PStr (''Adoption Rate Model R'' @ superscript_two @ '' Score: ''),
            PFloat4 (r2_score (map AdoptionRate df)
                       (predict ma (map (\<lambda>r. real_of_int (Year r)) df)))]
       (print [PStr (''Market Size Model R'' @ superscript_two @ '' Score: ''),
               PFloat4 (r2_score (map MarketSize df)
                          (predict mm (map (\<lambda>r. real_of_int (Year r)) df)))] w))"
  using assms by (simp add: perform_regression_def Let_def)

lemma main_present:
  assumes inp: "input_csv w = Some df" and ne: "df \<noteq> []"
  shows "\<exists>mm ma ps.
           fit (map (\<lambda>r. real_of_int (Year r)) df) (map MarketSize df) = Inr mm
         \<and> fit (map (\<lambda>r. real_of_int (Year r)) df) (map AdoptionRate df) = Inr ma
         \<and> generate_future_predictions mm ma 2024 5 = Inr ps
         \<and> fst (main r2_score w) = None
         \<and> results_csv (snd (main r2_score w)) =
             Some \<lparr>header = [''Year'', ''MarketSize'', ''AdoptionRate'', ''PredictedMarketSize'',
                              ''PredictedAdoptionRate'', ''Type''],
                   rows = map historical_row df @ map predicted_row ps\<rparr>
         \<and> (\<exists>j. results_json (snd (main r2_score w)) = Some j
                \<and> map hist_year (historical_data j) = map Year df
                \<and> map pred_year (predictions j) = map PredYear ps)"
proof -
  let ?X = "map (\<lambda>r. real_of_int (Year r)) df"
  obtain mm where mm: "fit ?X (map MarketSize df) = Inr mm"
    using fit_rows [OF ne] by blast
  obtain ma where ma: "fit ?X (map AdoptionRate df) = Inr ma"
    using fit_rows [OF ne] by blast
  obtain ps where ps: "generate_future_predictions mm ma 2024 5 = Inr ps"
    using generate_future_predictions_eq [of 5 mm ma 2024] by simp
  note pr = perform_regression_of_fit [OF mm ma]
  have run: "main r2_score w = (None, snd (main r2_score w))" and
    csv: "results_csv (snd (main r2_score w)) = results_csv (snd (save_results df ps
            (r2_score (map MarketSize df) (predict mm ?X))
            (r2_score (map AdoptionRate df) (predict ma ?X)) w))" and
    json: "results_json (snd (main r2_score w)) = Some (fst (save_results df ps
            (r2_score (map MarketSize df) (predict mm ?X))
            (r2_score (map AdoptionRate df) (predict ma ?X)) w))"
    by (simp_all add: main_def load_data_def read_csv_def inp pr ps Let_def split_beta
        save_results_def print_def)
  have "fst (main r2_score w) = None" using run by (metis fst_conv)
  moreover note mm ma ps
  moreover have "results_csv (snd (main r2_score w)) =
             Some \<lparr>header = [''Year'', ''MarketSize'', ''AdoptionRate'', ''PredictedMarketSize'',
                              ''PredictedAdoptionRate'', ''Type''],
                   rows = map historical_row df @ map predicted_row ps\<rparr>"
    unfolding csv by (rule save_results_csv)
  moreover have "\<exists>j. results_json (snd (main r2_score w)) = Some j
                \<and> map hist_year (historical_data j) = map Year df
                \<and> map pred_year (predictions j) = map PredYear ps"
    unfolding json by (simp add: save_results_json o_def)
  ultimately show ?thesis by blast
qed

lemma forecast_years_default:
  assumes "generate_future_predictions mm ma 2024 5 = Inr ps"
  shows "map PredYear ps = [2025, 2026, 2027, 2028, 2029]"
proof -
  have "[2024 + 1..2024 + 5] = [2025, 2026, 2027, 2028, 2029::int]"
    by (simp add: upto_rec1)
  with assms generate_future_predictions_eq [of 5 mm ma 2024] show ?thesis
    by (auto simp: o_def)
qed

text \<open>
  C1, as the code has it. For every non-empty table loaded, \<open>main\<close> returns and the
  forecast it writes is for the years 2025 to 2029, whatever years the table holds: the
  forecaster is called with the base year 2024 and five years. So every forecast year is
  strictly after every historical year exactly when no historical year is after 2024.
\<close>

theorem C1_forecast_years_fixed:
  assumes "input_csv w = Some df" and "df \<noteq> []"
  shows "fst (main r2_score w) = None
       \<and> (\<exists>j. results_json (snd (main r2_score w)) = Some j
              \<and> map pred_year (predictions j) = [2025, 2026, 2027, 2028, 2029]
              \<and> ((\<forall>r\<in>set df. \<forall>p\<in>set (predictions j). Year r < pred_year p)
                   = (\<forall>r\<in>set df. Year r \<le> 2024)))"
proof -
  from main_present [OF assms] obtain mm ma ps j where
    ps: "generate_future_predictions mm ma 2024 5 = Inr ps" and
    ok: "fst (main r2_score w) = None" and
    j: "results_json (snd (main r2_score w)) = Some j" and
    py: "map pred_year (predictions j) = map PredYear ps"
    by blast
  have years: "map pred_year (predictions j) = [2025, 2026, 2027, 2028, 2029]"
    using py forecast_years_default [OF ps] by simp
  have img: "pred_year ` set (predictions j) = {2025, 2026, 2027, 2028, 2029}"
    using years by (metis list.set_map list.simps(15) empty_set)
  have lo: "2025 \<le> pred_year p" if "p \<in> set (predictions j)" for p
  proof -
    from that have "pred_year p \<in> {2025, 2026, 2027, 2028, 2029}"
      using img by blast
    then show ?thesis by auto
  qed
  obtain p0 where p0: "p0 \<in> set (predictions j)" "pred_year p0 = 2025"
    using img by (metis imageE insertI1)
  have "(\<forall>r\<in>set df. \<forall>p\<in>set (predictions j). Year r < pred_year p)
                   = (\<forall>r\<in>set df. Year r \<le> 2024)"
  proof
    assume all: "\<forall>r\<in>set df. \<forall>p\<in>set (predictions j). Year r < pred_year p"
    show "\<forall>r\<in>set df. Year r \<le> 2024"
    proof
      fix r assume "r \<in> set df"
      with all p0 have "Year r < 2025" by fastforce
      then show "Year r \<le> 2024" by simp
    qed
  next
    assume le: "\<forall>r\<in>set df. Year r \<le> 2024"
    show "\<forall>r\<in>set df. \<forall>p\<in>set (predictions j). Year r < pred_year p"
    proof (intro ballI)
      fix r p assume "r \<in> set df" "p \<in> set (predictions j)"
      with le lo [of p] show "Year r < pred_year p" by fastforce
    qed
  qed
  with ok j years show ?thesis by simp
qed

theorem C1_forecast_years_witness:
  "input_csv (fresh_world (Some scenario)) = Some scenario \<and> scenario \<noteq> []
   \<and> fst (main (\<lambda>y_true y_pred. Finite 1) (fresh_world (Some scenario))) = None
   \<and> (\<exists>j. results_json (snd (main (\<lambda>y_true y_pred. Finite 1) (fresh_world (Some scenario)))) = Some j
          \<and> map pred_year (predictions j) = [2025, 2026, 2027, 2028, 2029])"
proof -
  have a: "input_csv (fresh_world (Some scenario)) = Some scenario"
    by (simp add: fresh_world_def)
  have b: "scenario \<noteq> []" by (simp add: scenario_def)
  from C1_forecast_years_fixed [OF a b, of "\<lambda>y_true y_pred. Finite 1"] a b show ?thesis by auto
qed

text \<open>
  A table whose last year is 2025: the first forecast year, 2025, is not after it.
\<close>

theorem C1_late_data_counterexample:
  "\<not> Max (Year ` set late_data)
       < Min (pred_year ` set (predictions
               (the (results_json (snd (main (\<lambda>y_true y_pred. Finite 1) (fresh_world (Some late_data))))))))"
proof -
  have a: "input_csv (fresh_world (Some late_data)) = Some late_data"
    by (simp add: fresh_world_def)
  have b: "late_data \<noteq> []" by (simp add: late_data_def)
  from main_present [OF a b, of "\<lambda>y_true y_pred. Finite 1"] obtain mm ma ps j where
    ps: "generate_future_predictions mm ma 2024 5 = Inr ps" and
    j: "results_json (snd (main (\<lambda>y_true y_pred. Finite 1) (fresh_world (Some late_data)))) = Some j" and
    py: "map pred_year (predictions j) = map PredYear ps"
    by blast
  have "map pred_year (predictions j) = [2025, 2026, 2027, 2028, 2029]"
    using py forecast_years_default [OF ps] by simp
  then have "pred_year ` set (predictions j) = {2025, 2026, 2027, 2028, 2029}"
    by (metis list.set_map list.simps(15) empty_set)
  then have "Min (pred_year ` set (predictions j)) = 2025" by simp
  moreover have "Max (Year ` set late_data) = 2025" by (simp add: late_data_def)
  ultimately show ?thesis using j by simp
qed

end
